theory Spec2Isabelle
  imports Complex_Main "HOL-Library.AList"
begin

section \<open>JavaScript values\<close>

text \<open>
  The messages of both sides are JSON objects. An object is an association list in
  insertion order; \<open>JTime n\<close> stands for the ISO string \<open>new Date(n).toISOString()\<close>,
  \<open>JNum\<close> for the integers the code produces (\<open>Date.now()\<close>, counters).
  \<open>JSON.stringify\<close> and \<open>JSON.parse\<close> are inverse on these values and are not modelled:
  a frame on the wire is the value itself.
\<close>

datatype jsval =
    JUndefined
  | JNull
  | JBool bool
  | JNum int
  | JStr string
  | JTime nat
  | JObj "(string \<times> jsval) list"

text \<open>\<open>typeof v === 'object'\<close> together with truthiness, as \<open>!v || typeof v !== 'object'\<close> tests it.\<close>

fun truthy :: "jsval \<Rightarrow> bool" where
  "truthy JUndefined = False"
| "truthy JNull = False"
| "truthy (JBool b) = b"
| "truthy (JNum n) = (n \<noteq> 0)"
| "truthy (JStr s) = (s \<noteq> [])"
| "truthy (JTime n) = True"
| "truthy (JObj fs) = True"

fun is_object :: "jsval \<Rightarrow> bool" where
  "is_object (JObj fs) = True"
| "is_object v = False"

text \<open>Property read \<open>v.k\<close> on a value that is not \<open>null\<close> or \<open>undefined\<close>.\<close>

fun field :: "string \<Rightarrow> jsval \<Rightarrow> jsval" where
  "field k (JObj fs) = (case map_of fs k of Some v \<Rightarrow> v | None \<Rightarrow> JUndefined)"
| "field k v = JUndefined"

text \<open>Template-literal conversion of a value to a string.\<close>

function dec_nat :: "nat \<Rightarrow> string" where
  "dec_nat n = (if n < 10 then [char_of (48 + n)] else dec_nat (n div 10) @ [char_of (48 + n mod 10)])"
  by pat_completeness auto
termination
  by (relation "measure (\<lambda>n. n)") auto

fun js_string :: "jsval \<Rightarrow> string" where
  "js_string JUndefined = ''undefined''"
| "js_string JNull = ''null''"
| "js_string (JBool b) = (if b then ''true'' else ''false'')"
| "js_string (JNum n) = (if n < 0 then CHR ''-'' # dec_nat (nat (- n)) else dec_nat (nat n))"
| "js_string (JStr s) = s"
| "js_string (JTime n) = dec_nat n"
| "js_string (JObj fs) = ''[object Object]''"

text \<open>
  The object literal \<open>{...m, k: v}\<close>: the spread copies the own properties of \<open>m\<close> (of a
  string, its characters under their indices; of any other primitive, nothing), a later
  key overwrites an earlier one in place and is appended when new.
\<close>

fun spread :: "jsval \<Rightarrow> (string \<times> jsval) list" where
  "spread (JObj fs) = fs"
| "spread (JStr cs) = zip (map dec_nat [0..<length cs]) (map (\<lambda>c. JStr [c]) cs)"
| "spread v = []"

definition set_field :: "string \<Rightarrow> jsval \<Rightarrow> (string \<times> jsval) list \<Rightarrow> (string \<times> jsval) list" where
  "set_field k v fs = AList.update k v fs"

section \<open>The server: \<open>WebSocketServer\<close> (second file of server/config/db.js)\<close>

subsection \<open>State\<close>

type_synonym ws = nat

datatype ready_state = CONNECTING | OPEN | CLOSING | CLOSED

text \<open>
  \<open>decoded.id\<close> of a verified token, and the \<open>userId\<close> argument of \<open>sendToUser\<close>: a string
  or \<open>undefined\<close>.
\<close>

datatype user_id = NoId | Uid string

record client_info =
  userId :: user_id
  connectionId :: string
  ip :: string

text \<open>
  The three \<open>Map\<close>s of the class (\<open>clients\<close>, \<open>connectionTimeouts\<close>, \<open>pingIntervals\<close>) are
  association lists in insertion order, as a JavaScript \<open>Map\<close> iterates.
\<close>

text \<open>What the server does to a socket: \<open>ws.send\<close>, \<open>ws.close(code, reason)\<close>, \<open>ws.ping()\<close>.\<close>

datatype effect = Sent ws jsval | Closed ws nat string | Pinged ws

datatype callback = ConnectionTimeout ws | PingInterval ws

text \<open>
  A pending timer of the event loop: the instant it is due, its period when it was made
  by \<open>setInterval\<close>, and what it runs.
\<close>

record timer =
  due :: nat
  period :: "nat option"
  run :: callback

record request =
  remoteAddress :: string
  url_parses :: bool
  token_param :: "string option"

record server =
  wss_clients :: "ws list"
  readyState :: "ws \<Rightarrow> ready_state"
  listening :: "ws set"
  clients :: "(ws \<times> client_info) list"
  connectionTimeouts :: "(ws \<times> nat) list"
  pingIntervals :: "(ws \<times> nat) list"
  timers :: "(nat \<times> timer) list"
  next_handle :: nat
  next_ws :: nat
  uuids :: "nat \<Rightarrow> string"
  next_uuid :: nat
  time :: nat
  outbox :: "effect list"

definition MAX_MESSAGE_SIZE :: nat where "MAX_MESSAGE_SIZE = 1024 * 1024"
definition PING_INTERVAL :: nat where "PING_INTERVAL = 30000"
definition CONNECTION_TIMEOUT :: nat where "CONNECTION_TIMEOUT = 45000"

definition new_server :: "(nat \<Rightarrow> string) \<Rightarrow> server" where
  "new_server us =
     \<lparr>wss_clients = [], readyState = (\<lambda>w. CLOSED), listening = {}, clients = [],
      connectionTimeouts = [], pingIntervals = [], timers = [],
      next_handle = 0, next_ws = 0, uuids = us, next_uuid = 0, time = 0, outbox = []\<rparr>"

subsection \<open>Timers and socket primitives\<close>

definition setTimer :: "callback \<Rightarrow> nat \<Rightarrow> nat option \<Rightarrow> server \<Rightarrow> nat \<times> server" where
  "setTimer cb delay per s =
     (next_handle s,
      s\<lparr>timers := timers s @ [(next_handle s, \<lparr>due = time s + delay, period = per, run = cb\<rparr>)],
        next_handle := Suc (next_handle s)\<rparr>)"

definition clearTimer :: "nat \<Rightarrow> server \<Rightarrow> server" where
  "clearTimer h s = s\<lparr>timers := filter (\<lambda>(k, t). k \<noteq> h) (timers s)\<rparr>"

text \<open>\<open>ws.close(code, reason)\<close> starts the closing handshake; the close event comes later.\<close>

definition ws_close :: "ws \<Rightarrow> nat \<Rightarrow> string \<Rightarrow> server \<Rightarrow> server" where
  "ws_close w code reason s =
     s\<lparr>readyState := (readyState s)(w := CLOSING), outbox := outbox s @ [Closed w code reason]\<rparr>"

definition uuidv4 :: "server \<Rightarrow> string \<times> server" where
  "uuidv4 s = (uuids s (next_uuid s), s\<lparr>next_uuid := Suc (next_uuid s)\<rparr>)"

subsection \<open>Sending\<close>

datatype ws_error = NOT_CONNECTED

text \<open>\<open>sendMessage(ws, message)\<close> of the server class: refuses a socket that is not open.\<close>

definition server_sendMessage :: "ws \<Rightarrow> jsval \<Rightarrow> server \<Rightarrow> ws_error + server" where
  "server_sendMessage w m s =
     (if readyState s w \<noteq> OPEN then Inl NOT_CONNECTED
      else Inr (s\<lparr>outbox := outbox s @ [Sent w m]\<rparr>))"

text \<open>\<open>sendError\<close>: a failure of the send is caught and logged.\<close>

definition sendError :: "ws \<Rightarrow> string \<Rightarrow> string \<Rightarrow> server \<Rightarrow> server" where
  "sendError w code msg s =
     (case server_sendMessage w
        (JObj [(''type'', JStr ''ERROR''),
               (''error'', JObj [(''code'', JStr code), (''message'', JStr msg),
                                 (''timestamp'', JTime (time s))])]) s of
        Inl e \<Rightarrow> s
      | Inr s' \<Rightarrow> s')"

subsection \<open>The connection handler of \<open>setupEventHandlers\<close>\<close>

text \<open>
  \<open>verify\<close> is \<open>jwt.verify(token, process.env.JWT_SECRET)\<close>: \<open>None\<close> when it throws (bad
  signature, expired token), otherwise the \<open>id\<close> of the decoded payload.
  A new socket is open when the connection event is emitted, and the \<open>ws\<close> library has
  already put it into \<open>wss.clients\<close>.
\<close>

definition accept_socket :: "server \<Rightarrow> ws \<times> server" where
  "accept_socket s =
     (next_ws s,
      s\<lparr>wss_clients := wss_clients s @ [next_ws s],
        readyState := (readyState s)(next_ws s := OPEN),
        next_ws := Suc (next_ws s)\<rparr>)"

definition on_connection :: "(string \<Rightarrow> user_id option) \<Rightarrow> request \<Rightarrow> server \<Rightarrow> server" where
  "on_connection verify req s0 =
     (let (w, s1) = accept_socket s0;
          (cid, s2) = uuidv4 s1;
          (h, s3) = setTimer (ConnectionTimeout w) CONNECTION_TIMEOUT None s2;
          s4 = s3\<lparr>connectionTimeouts := AList.update w h (connectionTimeouts s3)\<rparr>
      in if \<not> url_parses req \<or> token_param req = None \<or> token_param req = Some []
         then ws_close w 4002 ''Invalid connection URL'' s4
         else case verify (the (token_param req)) of
           None \<Rightarrow> ws_close w 4003 ''Invalid authentication token'' s4
         | Some uid \<Rightarrow>
            (let s5 = clearTimer h s4;
                 s6 = s5\<lparr>connectionTimeouts := AList.delete w (connectionTimeouts s5)\<rparr>;
                 s7 = s6\<lparr>clients := AList.update w
                         \<lparr>userId = uid, connectionId = cid, ip = remoteAddress req\<rparr> (clients s6)\<rparr>;
                 (p, s8) = setTimer (PingInterval w) PING_INTERVAL (Some PING_INTERVAL) s7;
                 s9 = s8\<lparr>pingIntervals := AList.update w p (pingIntervals s8)\<rparr>;
                 welcome = JObj [(''type'', JStr ''CONNECTION_ESTABLISHED''),
                                 (''message'', JStr ''WebSocket connection established''),
                                 (''connectionId'', JStr cid),
                                 (''timestamp'', JTime (time s9))];
                 s10 = (case server_sendMessage w welcome s9 of Inl e \<Rightarrow> s9 | Inr s' \<Rightarrow> s')
             in s10\<lparr>listening := insert w (listening s10)\<rparr>))"

subsection \<open>Inbound messages\<close>

text \<open>
  A text frame as the message handler sees it: its length, and what \<open>JSON.parse\<close> makes
  of it (\<open>None\<close> when it throws).
\<close>

record inbound =
  size_bytes :: nat
  parsed :: "jsval option"

definition handlePing :: "ws \<Rightarrow> jsval \<Rightarrow> server \<Rightarrow> ws_error + server" where
  "handlePing w d s =
     (let response = [(''type'', JStr ''PONG''), (''timestamp'', JTime (time s)),
                      (''serverTime'', JNum (int (time s)))];
          response' = (if truthy (field ''id'' d) then set_field ''id'' (field ''id'' d) response
                       else response)
      in server_sendMessage w (JObj response') s)"

definition handleMessage :: "ws \<Rightarrow> inbound \<Rightarrow> server \<Rightarrow> server" where
  "handleMessage w m s =
     (case map_of (clients s) w of
        None \<Rightarrow> s
      | Some c \<Rightarrow>
         (case parsed m of
            None \<Rightarrow> sendError w ''MESSAGE_PROCESSING_ERROR'' ''Unexpected token in JSON'' s
          | Some d \<Rightarrow>
             if \<not> truthy d \<or> \<not> is_object d
             then sendError w ''INVALID_MESSAGE'' ''Invalid message format'' s
             else if field ''type'' d = JStr ''PING''
             then (case handlePing w d s of
                     Inl e \<Rightarrow> sendError w ''NOT_CONNECTED'' ''WebSocket is not connected'' s
                   | Inr s' \<Rightarrow> s')
             else sendError w ''UNKNOWN_MESSAGE_TYPE''
                    (''Unknown message type: '' @ js_string (field ''type'' d)) s))"

definition on_message :: "ws \<Rightarrow> inbound \<Rightarrow> server \<Rightarrow> server" where
  "on_message w m s =
     (if w \<notin> listening s then s
      else if size_bytes m > MAX_MESSAGE_SIZE
      then sendError w ''MESSAGE_TOO_LARGE'' ''Message too large'' s
      else handleMessage w m s)"

text \<open>The pong handler only logs.\<close>

definition on_pong :: "ws \<Rightarrow> server \<Rightarrow> server" where
  "on_pong w s = s"

subsection \<open>Cleanup\<close>

definition cleanupClient :: "ws \<Rightarrow> server \<Rightarrow> server" where
  "cleanupClient w s =
     (let s1 = (case map_of (pingIntervals s) w of
                  Some h \<Rightarrow> (clearTimer h s)\<lparr>pingIntervals := AList.delete w (pingIntervals s)\<rparr>
                | None \<Rightarrow> s);
          s2 = (case map_of (connectionTimeouts s1) w of
                  Some h \<Rightarrow> (clearTimer h s1)\<lparr>connectionTimeouts := AList.delete w (connectionTimeouts s1)\<rparr>
                | None \<Rightarrow> s1)
      in s2\<lparr>clients := AList.delete w (clients s2)\<rparr>)"

text \<open>
  The close event of a socket: the library has set it to \<open>CLOSED\<close> and taken it out of
  \<open>wss.clients\<close>; the handler exists only on sockets that passed authentication.
\<close>

definition on_close :: "ws \<Rightarrow> server \<Rightarrow> server" where
  "on_close w s =
     (let s1 = s\<lparr>readyState := (readyState s)(w := CLOSED),
                  wss_clients := removeAll w (wss_clients s)\<rparr>
      in if w \<in> listening s1 then cleanupClient w s1 else s1)"

definition on_error :: "ws \<Rightarrow> server \<Rightarrow> server" where
  "on_error w s =
     (let s1 = s\<lparr>readyState := (readyState s)(w := CLOSING)\<rparr>
      in if w \<in> listening s1 then cleanupClient w s1 else s1)"

text \<open>\<open>cleanup()\<close>, run on SIGTERM and SIGINT.\<close>

definition close_open :: "ws \<Rightarrow> server \<Rightarrow> server" where
  "close_open w s = (if readyState s w = OPEN then ws_close w 1001 ''Server shutting down'' s else s)"

definition cleanup :: "server \<Rightarrow> server" where
  "cleanup s =
     (let s1 = fold close_open (wss_clients s) s;
          s2 = fold clearTimer (map snd (pingIntervals s1)) s1;
          s3 = fold clearTimer (map snd (connectionTimeouts s2)) s2
      in s3\<lparr>pingIntervals := [], connectionTimeouts := [], clients := []\<rparr>)"

subsection \<open>Broadcast Registry: \<open>broadcast\<close> and \<open>sendToUser\<close>\<close>

text \<open>\<open>this.clients.get(client)?.userId\<close>\<close>

definition userId_of :: "server \<Rightarrow> ws \<Rightarrow> user_id" where
  "userId_of s w = (case map_of (clients s) w of None \<Rightarrow> NoId | Some c \<Rightarrow> userId c)"

definition ws_send :: "ws \<Rightarrow> jsval \<Rightarrow> server \<Rightarrow> server" where
  "ws_send w m s = s\<lparr>outbox := outbox s @ [Sent w m]\<rparr>"

definition broadcast :: "jsval \<Rightarrow> user_id list \<Rightarrow> user_id list option \<Rightarrow> server \<Rightarrow> server" where
  "broadcast m exclude includeOnly s =
     (let cs = (case includeOnly of
                  None \<Rightarrow> wss_clients s
                | Some inc \<Rightarrow> filter (\<lambda>c. userId_of s c \<in> set inc) (wss_clients s))
      in fold (\<lambda>c s'. if readyState s' c = OPEN \<and> userId_of s' c \<notin> set exclude
                       then ws_send c m s' else s') cs s)"

text \<open>
  \<open>this.clients.get(client) === userId\<close>: the left side is the registry entry, an object,
  or \<open>undefined\<close> for a socket that is not registered; the right side is a string or
  \<open>undefined\<close>. Strict equality never holds between an object and a primitive.
\<close>

fun strict_eq_entry :: "client_info option \<Rightarrow> user_id \<Rightarrow> bool" where
  "strict_eq_entry None NoId = True"
| "strict_eq_entry None (Uid u) = False"
| "strict_eq_entry (Some c) u = False"

definition sendToUser :: "user_id \<Rightarrow> jsval \<Rightarrow> server \<Rightarrow> server" where
  "sendToUser u m s =
     fold (\<lambda>c s'. if readyState s' c = OPEN \<and> strict_eq_entry (map_of (clients s') c) u
                   then ws_send c m s' else s') (wss_clients s) s"

subsection \<open>Time\<close>

fun fire :: "callback \<Rightarrow> server \<Rightarrow> server" where
  "fire (ConnectionTimeout w) s =
     (if readyState s w = OPEN then ws_close w 4008 ''Connection timeout'' s else s)"
| "fire (PingInterval w) s =
     (if readyState s w = OPEN then s\<lparr>outbox := outbox s @ [Pinged w]\<rparr> else s)"

text \<open>A timer that fired is gone when it came from \<open>setTimeout\<close> and due again one period later otherwise.\<close>

definition rearm :: "nat \<Rightarrow> timer \<Rightarrow> server \<Rightarrow> server" where
  "rearm h t s =
     (case period t of
        None \<Rightarrow> clearTimer h s
      | Some p \<Rightarrow> s\<lparr>timers := map (\<lambda>(k, u). if k = h then (k, u\<lparr>due := due u + p\<rparr>) else (k, u)) (timers s)\<rparr>)"

fun run_due :: "(nat \<times> timer) list \<Rightarrow> server \<Rightarrow> server" where
  "run_due [] s = s"
| "run_due ((h, t) # ts) s = run_due ts (fire (run t) (rearm h t s))"

text \<open>One millisecond passes with no event from any socket: the timers now due run in the order they were set.\<close>

definition tick :: "server \<Rightarrow> server" where
  "tick s =
     (let s1 = s\<lparr>time := Suc (time s)\<rparr>
      in run_due (filter (\<lambda>(h, t). due t = time s1) (timers s1)) s1)"

fun elapse :: "nat \<Rightarrow> server \<Rightarrow> server" where
  "elapse 0 s = s"
| "elapse (Suc n) s = elapse n (tick s)"

text \<open>The states the server can be in.\<close>

inductive reachable :: "(string \<Rightarrow> user_id option) \<Rightarrow> server \<Rightarrow> bool"
  for verify :: "string \<Rightarrow> user_id option" where
  r_init: "reachable verify (new_server us)"
| r_connection: "reachable verify s \<Longrightarrow> reachable verify (on_connection verify req s)"
| r_message: "reachable verify s \<Longrightarrow> reachable verify (on_message w m s)"
| r_pong: "reachable verify s \<Longrightarrow> reachable verify (on_pong w s)"
| r_close: "reachable verify s \<Longrightarrow> reachable verify (on_close w s)"
| r_error: "reachable verify s \<Longrightarrow> reachable verify (on_error w s)"
| r_tick: "reachable verify s \<Longrightarrow> reachable verify (tick s)"
| r_broadcast: "reachable verify s \<Longrightarrow> reachable verify (broadcast m ex inc s)"
| r_sendToUser: "reachable verify s \<Longrightarrow> reachable verify (sendToUser u m s)"
| r_cleanup: "reachable verify s \<Longrightarrow> reachable verify (cleanup s)"
subsection \<open>Observations on a server state\<close>

text \<open>The callbacks of the timers that are still pending.\<close>

definition armed :: "server \<Rightarrow> callback set" where
  "armed s = (\<lambda>(h, t). run t) ` set (timers s)"

text \<open>
  Every pending connection timeout belongs to a socket that was accepted earlier and is
  no longer open, so that its callback finds nothing to close.
\<close>

definition timeouts_idle :: "server \<Rightarrow> bool" where
  "timeouts_idle s \<longleftrightarrow>
     (\<forall>w. ConnectionTimeout w \<in> armed s \<longrightarrow> w < next_ws s \<and> readyState s w \<noteq> OPEN)"

fun is_ping :: "effect \<Rightarrow> bool" where
  "is_ping (Pinged w) = True"
| "is_ping e = False"

text \<open>Everything the server did to its sockets except protocol pings.\<close>

definition besides_pings :: "server \<Rightarrow> effect list" where
  "besides_pings s = filter (\<lambda>e. \<not> is_ping e) (outbox s)"

subsection \<open>A concrete run\<close>

text \<open>
  One secret-holder: the token \<open>good\<close> verifies as user \<open>u1\<close>, every other token is
  rejected (as an expired one is). \<open>one_client\<close> is the server after one connection
  with the good token.
\<close>

definition vfy :: "string \<Rightarrow> user_id option" where
  "vfy t = (if t = ''good'' then Some (Uid ''u1'') else None)"

definition req_good :: request where
  "req_good = \<lparr>remoteAddress = ''10.0.0.1'', url_parses = True, token_param = Some ''good''\<rparr>"

definition req_expired :: request where
  "req_expired = \<lparr>remoteAddress = ''10.0.0.1'', url_parses = True, token_param = Some ''expired''\<rparr>"

definition one_client :: server where
  "one_client = on_connection vfy req_good (new_server (\<lambda>n. ''c0''))"

definition welcome_c0 :: jsval where
  "welcome_c0 = JObj [(''type'', JStr ''CONNECTION_ESTABLISHED''),
                      (''message'', JStr ''WebSocket connection established''),
                      (''connectionId'', JStr ''c0''), (''timestamp'', JTime 0)]"

section \<open>The client: \<open>WebSocketProvider\<close>\<close>

text \<open>
  The repository holds the provider twice: the complete component that follows the
  README in the file without a name (called the README variant below), and
  client/src/contexts/WebSocketContext.jsx, which has a different queue drain and a
  different message handler. Both declare the same state, modelled by one record.

  The hooks \<open>useState\<close> and \<open>useRef\<close> are fields of the record, read at their current
  value; a callback is a function from state to state. A timer is the instant it is due:
  a field that holds a handle holds that instant, and a handle whose instant has passed
  is stale. \<open>uuidv4()\<close> and \<open>Math.random()\<close> draw from two sequences given with the state.
\<close>

subsection \<open>State\<close>

datatype ws_status = WS_CONNECTING | WS_CONNECTED | WS_DISCONNECTED | WS_RECONNECTING | WS_ERROR

datatype level = LLog | LInfo | LWarn | LError | LDebug | LSuccess

datatype js_error = TypeError string | Error string | InvalidStateError

record log_entry =
  log_id :: string
  log_timestamp :: nat
  log_type :: level
  log_message :: string
  log_data :: "jsval option"

text \<open>An entry of \<open>messageQueue\<close>, as the drains destructure it: \<open>{ message, id, retryCount }\<close>.\<close>

record qentry =
  q_message :: jsval
  q_id :: jsval
  q_timestamp :: "nat option"
  retryCount :: "nat option"

text \<open>An entry of \<open>pendingPings\<close>: when the probe was sent and when its timeout is due.\<close>

record ping =
  ping_timestamp :: nat
  ping_due :: nat

text \<open>What the client does to its transport: \<open>socket.send\<close> and \<open>socket.close(code, reason)\<close>.\<close>

datatype client_effect = Frame jsval | CloseCall nat string

datatype task = DrainQueue | SetupHeartbeat

record client =
  socket :: "ready_state option"
  socketHandlers :: bool
  connectionStatus :: ws_status
  lastError :: "string option"
  logs :: "log_entry list"
  isAuthenticated :: bool
  token :: string
  reconnectAttempts :: nat
  reconnectTimeout :: "nat option"
  messageQueue :: "qentry list"
  heartbeatInterval :: "nat option"
  pongTimeout :: "nat option"
  connectionTimeout :: "nat option"
  isMounted :: bool
  pendingPings :: "(string \<times> ping) list"
  reconnectBackoff :: rat
  lastActivity :: nat
  isExplicitDisconnect :: bool
  scheduled :: "(nat \<times> task) list"
  toasts :: "(level \<times> string) list"
  wire :: "client_effect list"
  logoutCalls :: nat
  DEBUG :: bool
  socketCreatable :: bool
  clock :: nat
  uuid_source :: "nat \<Rightarrow> string"
  uuid_next :: nat
  random_source :: "nat \<Rightarrow> rat"
  random_next :: nat

definition MAX_RECONNECT_ATTEMPTS :: nat where "MAX_RECONNECT_ATTEMPTS = 10"
definition MAX_RECONNECT_DELAY :: rat where "MAX_RECONNECT_DELAY = 30000"
definition HEARTBEAT_INTERVAL :: nat where "HEARTBEAT_INTERVAL = 15000"
definition PONG_TIMEOUT :: nat where "PONG_TIMEOUT = 10000"
definition MAX_QUEUE_SIZE :: nat where "MAX_QUEUE_SIZE = 100"


subsection \<open>Environment: identifiers, random numbers, the transport\<close>

definition client_uuidv4 :: "client \<Rightarrow> string \<times> client" where
  "client_uuidv4 s = (uuid_source s (uuid_next s), s\<lparr>uuid_next := Suc (uuid_next s)\<rparr>)"

definition math_random :: "client \<Rightarrow> rat \<times> client" where
  "math_random s = (random_source s (random_next s), s\<lparr>random_next := Suc (random_next s)\<rparr>)"

text \<open>
  \<open>socket.send(data)\<close> of a browser socket: a \<open>TypeError\<close> when \<open>socket\<close> is \<open>null\<close>, an
  \<open>InvalidStateError\<close> while the socket is connecting, the frame goes out when it is
  open, and is discarded without an exception when it is closing or closed.
\<close>

definition socket_send :: "jsval \<Rightarrow> client \<Rightarrow> js_error + client" where
  "socket_send m s =
     (case socket s of
        None \<Rightarrow> Inl (TypeError ''Cannot read properties of null'')
      | Some CONNECTING \<Rightarrow> Inl InvalidStateError
      | Some OPEN \<Rightarrow> Inr (s\<lparr>wire := wire s @ [Frame m]\<rparr>)
      | Some CLOSING \<Rightarrow> Inr s
      | Some CLOSED \<Rightarrow> Inr s)"

text \<open>\<open>socket.close(code, reason)\<close> starts the closing handshake of a socket that is not yet closing.\<close>

definition socket_close :: "nat \<Rightarrow> string \<Rightarrow> client \<Rightarrow> client" where
  "socket_close code reason s =
     (if socket s = Some CONNECTING \<or> socket s = Some OPEN
      then s\<lparr>socket := Some CLOSING, wire := wire s @ [CloseCall code reason]\<rparr>
      else s)"

fun error_text :: "js_error \<Rightarrow> string" where
  "error_text (TypeError m) = ''TypeError: '' @ m"
| "error_text (Error m) = ''Error: '' @ m"
| "error_text InvalidStateError = ''InvalidStateError: Still in CONNECTING state.''"

subsection \<open>Logging and status\<close>

text \<open>\<open>addLog\<close>: keeps the last 100 entries and raises a toast for the three loud types.\<close>

definition addLog :: "string \<Rightarrow> level \<Rightarrow> jsval \<Rightarrow> client \<Rightarrow> client" where
  "addLog msg ty data s =
     (if \<not> isMounted s then s
      else let (u, s1) = client_uuidv4 s;
               entry = \<lparr>log_id = u, log_timestamp = clock s1, log_type = ty, log_message = msg,
                        log_data = (if truthy data then Some data else None)\<rparr>;
               s2 = s1\<lparr>logs := drop (length (logs s1) - 99) (logs s1) @ [entry]\<rparr>
           in if ty = LError \<or> ty = LWarn \<or> ty = LSuccess
              then s2\<lparr>toasts := toasts s2 @ [(ty, msg)]\<rparr> else s2)"

text \<open>\<open>debugLog\<close>: the console is not modelled; warnings and errors also go to \<open>addLog\<close>.\<close>

definition debugLog :: "level \<Rightarrow> string \<Rightarrow> client \<Rightarrow> client" where
  "debugLog lvl msg s =
     (if \<not> DEBUG s then s
      else if lvl = LError \<or> lvl = LWarn then addLog msg lvl JNull s
      else s)"

definition updateStatus :: "ws_status \<Rightarrow> string option \<Rightarrow> client \<Rightarrow> client" where
  "updateStatus st err s =
     (if \<not> isMounted s then s
      else let s1 = s\<lparr>connectionStatus := st\<rparr>
           in case err of
                None \<Rightarrow> s1
              | Some e \<Rightarrow> addLog (''Error: '' @ (if e = [] then ''Unknown error occurred'' else e))
                            LError JNull (s1\<lparr>lastError := Some e\<rparr>))"

subsection \<open>\<open>cleanupSocket\<close> and \<open>disconnect\<close> (README variant)\<close>

text \<open>
  \<open>cleanupSocket\<close> clears the three timer fields, then walks \<open>pendingPings\<close> calling the
  \<open>reject\<close> of each entry. The entries \<open>sendPing\<close> stores are \<open>{ timestamp, resolve }\<close>:
  \<open>reject\<close> is \<open>undefined\<close> and the call throws on the first entry, before anything is
  deleted and before the socket is touched. The result is the exception, if any, and the
  state reached.
\<close>

definition cleanupSocket :: "client \<Rightarrow> js_error option \<times> client" where
  "cleanupSocket s =
     (let s1 = s\<lparr>heartbeatInterval := None, pongTimeout := None, connectionTimeout := None\<rparr>
      in case pendingPings s1 of
           p # ps \<Rightarrow> (Some (TypeError ''reject is not a function''), s1)
         | [] \<Rightarrow>
            (case socket s1 of
               None \<Rightarrow> (None, s1)
             | Some rs \<Rightarrow>
                (let s2 = (if rs = OPEN then socket_close 1000 ''Client disconnecting'' s1 else s1)
                 in (None, s2\<lparr>socketHandlers := False\<rparr>))))"


subsection \<open>\<open>handleReconnect\<close> (README variant)\<close>

text \<open>
  The delay before the next attempt, for the random number \<open>r\<close> that \<open>Math.random()\<close>
  returned. \<open>Math.pow(1.5, n)\<close> is exact in binary floating point for the attempts the
  limit allows, so the arithmetic is done in the rationals.
\<close>

definition reconnectDelay :: "rat \<Rightarrow> nat \<Rightarrow> rat \<Rightarrow> int" where
  "reconnectDelay backoff attempts r =
     (let baseDelay = min (backoff * (3 / 2) ^ attempts) MAX_RECONNECT_DELAY;
          jitter = r * 1000
      in \<lfloor>baseDelay + jitter\<rfloor>)"

definition handleReconnect :: "client \<Rightarrow> client" where
  "handleReconnect s =
     (if \<not> isMounted s then s
      else if connectionStatus s = WS_RECONNECTING
              \<or> (MAX_RECONNECT_ATTEMPTS > 0 \<and> reconnectAttempts s \<ge> MAX_RECONNECT_ATTEMPTS)
      then updateStatus WS_ERROR (Some ''Max reconnection attempts reached'')
             (debugLog LWarn ''Max reconnection attempts reached'' s)
      else let (r, s1) = math_random s;
               delay = reconnectDelay (reconnectBackoff s1) (reconnectAttempts s1) r;
               s2 = s1\<lparr>reconnectAttempts := Suc (reconnectAttempts s1)\<rparr>;
               s3 = updateStatus WS_RECONNECTING None s2
           in s3\<lparr>reconnectTimeout := Some (clock s3 + nat delay)\<rparr>)"

subsection \<open>\<open>sendMessage\<close> (README variant)\<close>

definition new_entry :: "string \<Rightarrow> jsval \<Rightarrow> nat \<Rightarrow> qentry" where
  "new_entry u m t = \<lparr>q_message = m, q_id = JStr u, q_timestamp = Some t, retryCount = Some 0\<rparr>"

definition sendMessage :: "jsval \<Rightarrow> bool \<Rightarrow> client \<Rightarrow> js_error + bool \<times> client" where
  "sendMessage message queueIfDisconnected s =
     (if \<not> truthy message \<or> \<not> is_object message then Inl (Error ''Message must be an object'')
      else if connectionStatus s \<noteq> WS_CONNECTED then
        (if queueIfDisconnected then
           (if length (messageQueue s) < MAX_QUEUE_SIZE
            then let (u, s1) = client_uuidv4 s
                 in Inr (True, s1\<lparr>messageQueue := messageQueue s1 @ [new_entry u message (clock s1)]\<rparr>)
            else Inr (False, debugLog LWarn ''Message queue full, dropping message [object Object]'' s))
         else Inr (False, debugLog LWarn
                 ''Not connected and queueIfDisconnected is false, dropping message [object Object]'' s))
      else let (u, s1) = client_uuidv4 s;
               messageWithId = JObj (set_field ''timestamp'' (JTime (clock s1))
                                       (set_field ''id'' (JStr u) (spread message)))
           in case socket_send messageWithId s1 of
                Inr s2 \<Rightarrow> Inr (True, s2)
              | Inl e \<Rightarrow>
                 (let s2 = debugLog LError (''Error sending message: '' @ error_text e) s1
                  in if queueIfDisconnected
                     then let (v, s3) = client_uuidv4 s2
                          in Inr (True, s3\<lparr>messageQueue := messageQueue s3 @ [new_entry v message (clock s3)]\<rparr>)
                     else Inr (False, s2)))"


subsection \<open>\<open>processMessageQueue\<close> (README variant)\<close>

text \<open>
  The loop over one batch. \<open>sendMessage(message, false)\<close> throws only for a message that
  is not an object; a send that fails inside it is caught there and answered \<open>false\<close>,
  which the loop does not read. The entry pushed in the \<open>catch\<close> block is
  \<open>{...message, id, retryCount: (retryCount || 0) + 1, lastAttempt}\<close>, read back as a
  queue entry: its \<open>message\<close> property is that of the spread message.
\<close>

definition requeued :: "qentry \<Rightarrow> qentry" where
  "requeued e =
     \<lparr>q_message = field ''message'' (JObj (spread (q_message e))), q_id = q_id e,
      q_timestamp = None,
      retryCount = Some (Suc (case retryCount e of None \<Rightarrow> 0 | Some n \<Rightarrow> n))\<rparr>"

fun drain_batch :: "qentry list \<Rightarrow> client \<Rightarrow> client" where
  "drain_batch [] s = s"
| "drain_batch (e # es) s =
     (case sendMessage (q_message e) False s of
        Inr (b, s1) \<Rightarrow> drain_batch es s1
      | Inl err \<Rightarrow>
         (let s1 = debugLog LWarn ''Failed to send queued message, will retry'' s
          in drain_batch es (s1\<lparr>messageQueue := messageQueue s1 @ [requeued e]\<rparr>)))"

definition processMessageQueue_readme :: "client \<Rightarrow> client" where
  "processMessageQueue_readme s =
     (if socket s \<noteq> Some OPEN then s
      else let batch = take 10 (messageQueue s);
               s1 = s\<lparr>messageQueue := drop 10 (messageQueue s)\<rparr>;
               s2 = drain_batch batch s1
           in if length (messageQueue s2) > 0
              then s2\<lparr>scheduled := scheduled s2 @ [(clock s2 + 100, DrainQueue)]\<rparr>
              else s2)"

subsection \<open>Heartbeat: \<open>sendPing\<close> and \<open>startHeartbeat\<close> (README variant)\<close>





subsection \<open>\<open>connect\<close> and its handlers (README variant)\<close>








subsection \<open>Time and the transport (README variant)\<close>











subsection \<open>Concrete clients\<close>



subsection \<open>Observations on the heartbeat\<close>

text \<open>What the heartbeat monitor works on: the pending probes, the heartbeat interval and the time.\<close>

definition hb_view :: "client \<Rightarrow> (string \<times> ping) list \<times> nat option \<times> nat" where
  "hb_view s = (pendingPings s, heartbeatInterval s, clock s)"

text \<open>
  The pending probes are well-timed: there is at most one; its timeout is in the
  future and at most \<open>PONG_TIMEOUT\<close> away; and the next tick of the heartbeat
  interval, if one is armed, is in the future and comes at least
  \<open>HEARTBEAT_INTERVAL - PONG_TIMEOUT\<close> after the timeout of that probe.
\<close>

definition probes_ok :: "client \<Rightarrow> bool" where
  "probes_ok s \<longleftrightarrow>
     length (pendingPings s) \<le> 1
     \<and> (\<forall>(i, p) \<in> set (pendingPings s). clock s < ping_due p \<and> ping_due p \<le> clock s + PONG_TIMEOUT)
     \<and> (\<forall>h. heartbeatInterval s = Some h \<longrightarrow>
           clock s < h
           \<and> (\<forall>(i, p) \<in> set (pendingPings s). ping_due p + (HEARTBEAT_INTERVAL - PONG_TIMEOUT) \<le> h))"

section \<open>The client: client/src/contexts/WebSocketContext.jsx\<close>

text \<open>
  Of this file the queue drain and the handlers that its \<open>handleReconnect\<close> attaches to
  a new socket are modelled. The drain passes a callback to \<open>socket.send\<close> and waits for
  it; what the transport answers for the entry at each position of the batch is given
  from outside. The drain is taken as one step: it yields only while it waits for the
  transport.
\<close>

subsection \<open>\<open>processMessageQueue\<close>\<close>

datatype send_outcome = Delivered | CallbackError js_error | Thrown js_error

text \<open>\<open>retryCount = 0\<close> in the destructuring pattern.\<close>

definition retry_of :: "qentry \<Rightarrow> nat" where
  "retry_of e = (case retryCount e of None \<Rightarrow> 0 | Some n \<Rightarrow> n)"

text \<open>\<open>{ message, id, retryCount: retryCount + 1 }\<close>\<close>

definition bumped :: "qentry \<Rightarrow> qentry" where
  "bumped e = \<lparr>q_message = q_message e, q_id = q_id e, q_timestamp = None,
               retryCount = Some (retry_of e + 1)\<rparr>"

text \<open>The texts the drain logs.\<close>

definition give_up_text :: string where
  "give_up_text = ''Failed to send message after 3 attempts''"

definition max_retries_text :: "jsval \<Rightarrow> string" where
  "max_retries_text idv = ''Max retries exceeded for message '' @ js_string idv"

definition send_error_text :: "js_error \<Rightarrow> string" where
  "send_error_text err = ''Error sending message: '' @ error_text err"

definition send_exception_text :: "js_error \<Rightarrow> string" where
  "send_exception_text err = ''Exception while sending message: '' @ error_text err"

definition attempt_text :: "nat \<Rightarrow> js_error \<Rightarrow> string" where
  "attempt_text n err = ''Failed to send message (attempt '' @ dec_nat n @ ''/3): '' @ error_text err"

text \<open>
  The body of the \<open>for\<close> loop for the entry at position \<open>i\<close>, on the list of failed
  entries, the count of processed entries and the state.
\<close>

definition drain_entry :: "(nat \<Rightarrow> send_outcome) \<Rightarrow> nat \<Rightarrow> qentry \<Rightarrow>
    qentry list \<times> nat \<times> client \<Rightarrow> qentry list \<times> nat \<times> client" where
  "drain_entry out i e acc =
     (case acc of (failed, processedCount, s) \<Rightarrow>
        if retry_of e \<ge> 3
        then (failed, processedCount,
              addLog give_up_text LError (JObj [(''messageId'', q_id e)])
                (debugLog LWarn (max_retries_text (q_id e)) s))
        else let (idv, s1) = (if truthy (q_id e) then (q_id e, s)
                              else (let (u, s') = client_uuidv4 s in (JStr u, s')));
                 messageWithId = JObj (set_field ''timestamp'' (JTime (clock s1))
                                         (set_field ''id'' idv (spread (q_message e))))
             in case out i of
                  Delivered \<Rightarrow> (failed, processedCount + 1, s1\<lparr>wire := wire s1 @ [Frame messageWithId]\<rparr>)
                | CallbackError err \<Rightarrow>
                    (failed @ [bumped e], processedCount,
                     debugLog LWarn (attempt_text (retry_of e + 1) err)
                       (debugLog LError (send_error_text err) s1))
                | Thrown err \<Rightarrow>
                    (failed @ [bumped e], processedCount,
                     debugLog LWarn (attempt_text (retry_of e + 1) err)
                       (debugLog LError (send_exception_text err) s1)))"

fun drain_loop :: "(nat \<Rightarrow> send_outcome) \<Rightarrow> nat \<Rightarrow> qentry list \<Rightarrow>
    qentry list \<times> nat \<times> client \<Rightarrow> qentry list \<times> nat \<times> client" where
  "drain_loop out i [] acc = acc"
| "drain_loop out i (e # es) acc = drain_loop out (Suc i) es (drain_entry out i e acc)"

definition processMessageQueue :: "(nat \<Rightarrow> send_outcome) \<Rightarrow> client \<Rightarrow> nat \<times> client" where
  "processMessageQueue out s =
     (if socket s \<noteq> Some OPEN then (0, s)
      else let batch = take 10 (messageQueue s);
               s1 = s\<lparr>messageQueue := drop 10 (messageQueue s)\<rparr>
           in case drain_loop out 0 batch ([], 0, s1) of
                (failedMessages, processedCount, s2) \<Rightarrow>
                  if length failedMessages > 0
                  then let s3 = s2\<lparr>messageQueue := failedMessages @ messageQueue s2\<rparr>;
                           delay = min (1000 * 2 ^ retry_of (hd failedMessages)) 10000
                       in (processedCount, s3\<lparr>scheduled := scheduled s3 @ [(clock s3 + delay, DrainQueue)]\<rparr>)
                  else (processedCount, s2))"

subsection \<open>The handlers of a new socket\<close>




subsection \<open>Concrete states\<close>





subsection \<open>Observations on a drain\<close>



text \<open>How often the failure of a message was reported to the user for good.\<close>

definition give_ups :: "client \<Rightarrow> nat" where
  "give_ups s = length (filter (\<lambda>t. t = (LError, give_up_text)) (toasts s))"

section \<open>The server: proofs\<close>

subsection \<open>Timers\<close>

lemma armed_clearTimer: "armed (clearTimer h s) \<subseteq> armed s"
  by (auto simp: armed_def clearTimer_def)

lemma armed_clearTimerD: "x \<in> armed (clearTimer h s) \<Longrightarrow> x \<in> armed s"
  using armed_clearTimer by blast

lemma armed_rearm: "armed (rearm h t s) \<subseteq> armed s"
  by (cases "period t") (auto simp: rearm_def armed_def clearTimer_def split: if_splits)

lemma armed_setTimer: "armed (snd (setTimer cb d p s)) = insert cb (armed s)"
  by (auto simp: armed_def setTimer_def)

lemma clearTimer_fields [simp]:
  "next_ws (clearTimer h s) = next_ws s" "readyState (clearTimer h s) = readyState s"
  "clients (clearTimer h s) = clients s" "outbox (clearTimer h s) = outbox s"
  "wss_clients (clearTimer h s) = wss_clients s" "listening (clearTimer h s) = listening s"
  "pingIntervals (clearTimer h s) = pingIntervals s" "connectionTimeouts (clearTimer h s) = connectionTimeouts s"
  by (simp_all add: clearTimer_def)

lemma rearm_fields [simp]:
  "next_ws (rearm h t s) = next_ws s" "readyState (rearm h t s) = readyState s"
  "clients (rearm h t s) = clients s" "outbox (rearm h t s) = outbox s"
  by (simp_all add: rearm_def split: option.splits)

lemma idle_subset:
  assumes "timeouts_idle s" "armed s' \<subseteq> armed s" "next_ws s \<le> next_ws s'"
    and "\<And>w. readyState s w \<noteq> OPEN \<Longrightarrow> w < next_ws s \<Longrightarrow> readyState s' w \<noteq> OPEN"
  shows "timeouts_idle s'"
  using assms unfolding timeouts_idle_def by (meson in_mono less_le_trans)

lemma idle_init: "timeouts_idle (new_server us)"
  by (simp add: timeouts_idle_def armed_def new_server_def)

lemma armed_upd [simp]:
  "armed (s\<lparr>connectionTimeouts := x\<rparr>) = armed s"
  "armed (s\<lparr>pingIntervals := y\<rparr>) = armed s"
  "armed (s\<lparr>clients := z\<rparr>) = armed s"
  "armed (s\<lparr>outbox := ob\<rparr>) = armed s"
  "armed (s\<lparr>listening := l\<rparr>) = armed s"
  "armed (s\<lparr>readyState := rs\<rparr>) = armed s"
  "armed (s\<lparr>wss_clients := wc\<rparr>) = armed s"
  "armed (s\<lparr>time := tm\<rparr>) = armed s"
  "armed (s\<lparr>next_ws := nw\<rparr>) = armed s"
  "armed (s\<lparr>next_uuid := nu\<rparr>) = armed s"
  by (simp_all add: armed_def)

lemma idle_ws_close: "timeouts_idle s \<Longrightarrow> timeouts_idle (ws_close w c r s)"
  by (auto simp: timeouts_idle_def ws_close_def)

lemma idle_sendMessage: "timeouts_idle s \<Longrightarrow> server_sendMessage w m s = Inr s' \<Longrightarrow> timeouts_idle s'"
  by (auto simp: timeouts_idle_def server_sendMessage_def split: if_splits)

lemma idle_sendError: "timeouts_idle s \<Longrightarrow> timeouts_idle (sendError w c m s)"
  by (auto simp: sendError_def split: sum.splits dest: idle_sendMessage)

lemma idle_on_connection:
  assumes "timeouts_idle s"
  shows "timeouts_idle (on_connection verify req s)"
proof -
  let ?w = "next_ws s"
  have old: "\<And>h t w. (h, t) \<in> set (timers s) \<Longrightarrow> ConnectionTimeout w = run t \<Longrightarrow>
                 w < ?w \<and> readyState s w \<noteq> OPEN"
    using assms by (force simp: timeouts_idle_def armed_def)
  show ?thesis
  proof (cases "\<not> url_parses req \<or> token_param req = None \<or> token_param req = Some []")
    case True
    then show ?thesis
      by (auto dest!: old simp: on_connection_def accept_socket_def uuidv4_def setTimer_def ws_close_def
          timeouts_idle_def armed_def Let_def split: prod.splits)
  next
    case False
    show ?thesis
    proof (cases "verify (the (token_param req))")
      case None
      then show ?thesis using False
        by (auto dest!: old simp: on_connection_def accept_socket_def uuidv4_def setTimer_def ws_close_def
            timeouts_idle_def armed_def Let_def split: prod.splits)
    next
      case (Some uid)
      then show ?thesis using False
        by (auto dest!: old simp: on_connection_def accept_socket_def uuidv4_def setTimer_def clearTimer_def
            server_sendMessage_def timeouts_idle_def armed_def Let_def split: prod.splits)
    qed
  qed
qed


lemma idle_handleMessage: "timeouts_idle s \<Longrightarrow> timeouts_idle (handleMessage w m s)"
  by (auto simp: handleMessage_def handlePing_def Let_def
      intro: idle_sendError idle_sendMessage split: option.splits sum.splits)

lemma idle_on_message: "timeouts_idle s \<Longrightarrow> timeouts_idle (on_message w m s)"
  by (simp add: on_message_def idle_sendError idle_handleMessage)

lemma idle_cleanupClient: "timeouts_idle s \<Longrightarrow> timeouts_idle (cleanupClient w s)"
proof -
  assume a: "timeouts_idle s"
  have "armed (cleanupClient w s) \<subseteq> armed s"
    by (auto simp: cleanupClient_def Let_def split: option.splits dest!: armed_clearTimerD)
  moreover have "next_ws (cleanupClient w s) = next_ws s" "readyState (cleanupClient w s) = readyState s"
    by (simp_all add: cleanupClient_def Let_def split: option.splits)
  ultimately show ?thesis using a by (auto intro: idle_subset)
qed

lemma idle_readyState_upd:
  "timeouts_idle s \<Longrightarrow> r \<noteq> OPEN \<Longrightarrow> timeouts_idle (s\<lparr>readyState := (readyState s)(w := r)\<rparr>)"
  by (auto simp: timeouts_idle_def)

lemma idle_wss_upd: "timeouts_idle s \<Longrightarrow> timeouts_idle (s\<lparr>wss_clients := x\<rparr>)"
  by (auto simp: timeouts_idle_def)

lemma idle_on_close: "timeouts_idle s \<Longrightarrow> timeouts_idle (on_close w s)"
  unfolding on_close_def Let_def
  using idle_cleanupClient[of "s\<lparr>readyState := (readyState s)(w := CLOSED), wss_clients := removeAll w (wss_clients s)\<rparr>" w]
  by (auto simp: timeouts_idle_def)

lemma idle_on_error: "timeouts_idle s \<Longrightarrow> timeouts_idle (on_error w s)"
  unfolding on_error_def Let_def
  using idle_cleanupClient[of "s\<lparr>readyState := (readyState s)(w := CLOSING)\<rparr>" w]
  by (auto simp: timeouts_idle_def)

lemma idle_ws_send: "timeouts_idle s \<Longrightarrow> timeouts_idle (ws_send w m s)"
  by (simp add: timeouts_idle_def ws_send_def)

lemma idle_fold:
  assumes "\<And>x s. timeouts_idle s \<Longrightarrow> timeouts_idle (f x s)"
  shows "timeouts_idle s \<Longrightarrow> timeouts_idle (fold f xs s)"
  by (induction xs arbitrary: s) (auto intro: assms)

lemma idle_broadcast: "timeouts_idle s \<Longrightarrow> timeouts_idle (broadcast m ex inc s)"
  unfolding broadcast_def Let_def by (rule idle_fold) (auto intro: idle_ws_send)

lemma idle_sendToUser: "timeouts_idle s \<Longrightarrow> timeouts_idle (sendToUser u m s)"
  unfolding sendToUser_def by (rule idle_fold) (auto intro: idle_ws_send)

lemma idle_clearTimer: "timeouts_idle s \<Longrightarrow> timeouts_idle (clearTimer h s)"
  using armed_clearTimer[of h s] by (auto intro: idle_subset)

lemma idle_close_open: "timeouts_idle s \<Longrightarrow> timeouts_idle (close_open w s)"
  by (simp add: close_open_def idle_ws_close)

lemma idle_cleanup: "timeouts_idle s \<Longrightarrow> timeouts_idle (cleanup s)"
proof -
  assume a: "timeouts_idle s"
  have 1: "timeouts_idle (fold close_open (wss_clients s) s)"
    using a by (rule idle_fold[rotated]) (rule idle_close_open)
  have 2: "timeouts_idle (fold clearTimer hs s')" if "timeouts_idle s'" for hs s'
    using that by (rule idle_fold[rotated]) (rule idle_clearTimer)
  show ?thesis
    unfolding cleanup_def Let_def using 2[OF 2[OF 1]]
    by (simp add: timeouts_idle_def)
qed

lemma idle_rearm: "timeouts_idle s \<Longrightarrow> timeouts_idle (rearm h t s)"
  using armed_rearm[of h t s] by (auto intro: idle_subset)

text \<open>In an idle state a timer that fires can only ping.\<close>

lemma fire_idle:
  assumes "timeouts_idle s" "cb \<in> armed s"
  shows "clients (fire cb s) = clients s \<and> readyState (fire cb s) = readyState s
       \<and> besides_pings (fire cb s) = besides_pings s
       \<and> armed (fire cb s) = armed s \<and> next_ws (fire cb s) = next_ws s"
proof (cases cb)
  case (ConnectionTimeout w)
  then have "readyState s w \<noteq> OPEN" using assms by (simp add: timeouts_idle_def)
  then show ?thesis using ConnectionTimeout by simp
next
  case (PingInterval w)
  show ?thesis
  proof (cases "readyState s w = OPEN")
    case True
    then show ?thesis using PingInterval by (auto simp: armed_def besides_pings_def)
  next
    case False
    then show ?thesis using PingInterval by simp
  qed
qed

lemma run_due_idle:
  assumes "timeouts_idle s" "(\<lambda>(h, t). run t) ` set ts \<subseteq> armed s0" "armed s \<subseteq> armed s0"
     "timeouts_idle s0" "readyState s = readyState s0" "next_ws s = next_ws s0"
  shows "clients (run_due ts s) = clients s \<and> readyState (run_due ts s) = readyState s
       \<and> besides_pings (run_due ts s) = besides_pings s
       \<and> timeouts_idle (run_due ts s) \<and> next_ws (run_due ts s) = next_ws s"
  using assms
proof (induction ts arbitrary: s)
  case Nil
  then show ?case by simp
next
  case (Cons x ts)
  obtain h t where x: "x = (h, t)" by (cases x)
  let ?s1 = "rearm h t s"
  let ?s2 = "fire (run t) ?s1"
  have cb0: "run t \<in> armed s0" using Cons.prems(2) x by auto
  have idle1: "timeouts_idle ?s1" using Cons.prems(1) by (rule idle_rearm)
  have sub1: "armed ?s1 \<subseteq> armed s0" using armed_rearm[of h t s] Cons.prems(3) by blast
  have nopen: "\<And>w. run t = ConnectionTimeout w \<Longrightarrow> readyState ?s1 w \<noteq> OPEN"
    using cb0 Cons.prems(4,5) by (auto simp: timeouts_idle_def)
  have f: "clients ?s2 = clients s \<and> readyState ?s2 = readyState s
       \<and> besides_pings ?s2 = besides_pings s
       \<and> armed ?s2 = armed ?s1 \<and> next_ws ?s2 = next_ws s"
  proof (cases "run t")
    case (ConnectionTimeout w)
    then show ?thesis using nopen by (simp add: besides_pings_def)
  next
    case (PingInterval w)
    then show ?thesis by (auto simp: armed_def besides_pings_def)
  qed
  have idle2: "timeouts_idle ?s2"
    using idle1 f by (auto simp: timeouts_idle_def)
  have ih: "clients (run_due ts ?s2) = clients ?s2 \<and> readyState (run_due ts ?s2) = readyState ?s2
       \<and> besides_pings (run_due ts ?s2) = besides_pings ?s2
       \<and> timeouts_idle (run_due ts ?s2) \<and> next_ws (run_due ts ?s2) = next_ws ?s2"
    using Cons.prems(2) x sub1 f Cons.prems(4,5,6)
    by (intro Cons.IH[OF idle2]) auto
  show ?case using ih f x by auto
qed

lemma tick_idle:
  assumes "timeouts_idle s"
  shows "clients (tick s) = clients s \<and> readyState (tick s) = readyState s
       \<and> besides_pings (tick s) = besides_pings s \<and> timeouts_idle (tick s)"
proof -
  let ?s1 = "s\<lparr>time := Suc (time s)\<rparr>"
  have i1: "timeouts_idle ?s1" using assms by (simp add: timeouts_idle_def)
  have "(\<lambda>(h, t). run t) ` set (filter (\<lambda>(h, t). due t = time ?s1) (timers ?s1)) \<subseteq> armed ?s1"
    by (auto simp: armed_def)
  from run_due_idle[OF i1 this _ i1] show ?thesis
    by (simp add: tick_def Let_def besides_pings_def)
qed

lemma elapse_idle:
  "timeouts_idle s \<Longrightarrow> clients (elapse d s) = clients s \<and> readyState (elapse d s) = readyState s
       \<and> besides_pings (elapse d s) = besides_pings s \<and> timeouts_idle (elapse d s)"
proof (induction d arbitrary: s)
  case 0
  then show ?case by simp
next
  case (Suc d)
  note t = tick_idle[OF Suc.prems]
  then have i: "timeouts_idle (tick s)" by simp
  note e = Suc.IH[OF i]
  show ?case using e t by auto
qed

lemma reachable_idle: "reachable verify s \<Longrightarrow> timeouts_idle s"
proof (induction rule: reachable.induct)
  case (r_tick s)
  then show ?case using tick_idle by blast
qed (simp_all add: idle_init idle_on_connection idle_on_message on_pong_def idle_on_close
      idle_on_error idle_broadcast idle_sendToUser idle_cleanup)


subsection \<open>The concrete run\<close>

lemma one_client_state:
  "map_of (clients one_client) 0 = Some \<lparr>userId = Uid ''u1'', connectionId = ''c0'', ip = ''10.0.0.1''\<rparr>"
  "readyState one_client 0 = OPEN"
  "wss_clients one_client = [0]"
  "outbox one_client = [Sent 0 welcome_c0]"
  by (simp_all add: one_client_def on_connection_def vfy_def req_good_def new_server_def
      accept_socket_def uuidv4_def setTimer_def clearTimer_def server_sendMessage_def
      welcome_c0_def Let_def split: prod.splits)

lemma one_client_reachable: "reachable vfy one_client"
  unfolding one_client_def by (intro r_connection r_init)

subsection \<open>Claim C1\<close>

text \<open>
  C1, as amended. The connection timeout is armed at transport connect and cancelled as
  soon as the token verifies; nothing re-arms it. For every channel that is registered in
  a reachable state, time passing without any socket event, however long, leaves the
  channel registered and its transport state as it was, and the only thing the server
  does meanwhile is send protocol pings: no close, in particular none with code 4008.
\<close>

theorem registered_channel_outlives_silence:
  assumes "reachable verify s" and "map_of (clients s) w = Some c"
  shows "map_of (clients (elapse d s)) w = Some c
       \<and> readyState (elapse d s) w = readyState s w
       \<and> besides_pings (elapse d s) = besides_pings s"
  using elapse_idle[OF reachable_idle[OF assms(1)], of d] assms(2) by simp

theorem registered_channel_outlives_silence_witness:
  "map_of (clients (elapse 45001 one_client)) 0
     = Some \<lparr>userId = Uid ''u1'', connectionId = ''c0'', ip = ''10.0.0.1''\<rparr>
   \<and> readyState (elapse 45001 one_client) 0 = OPEN
   \<and> besides_pings (elapse 45001 one_client) = [Sent 0 welcome_c0]"
  using registered_channel_outlives_silence[OF one_client_reachable one_client_state(1), of 45001]
  by (simp add: one_client_state besides_pings_def)

text \<open>
  C1 as stated fails: the channel of \<open>one_client\<close> is authenticated and registered, and
  after 45001 ms of silence (the timeout is 45000 ms) it is still registered, still open,
  and no close with code 4008 was issued.
\<close>

theorem silent_channel_is_not_closed:
  "map_of (clients (elapse 45001 one_client)) 0 \<noteq> None
   \<and> readyState (elapse 45001 one_client) 0 = OPEN
   \<and> Closed 0 4008 ''Connection timeout'' \<notin> set (outbox (elapse 45001 one_client))"
proof -
  note e = elapse_idle[OF reachable_idle[OF one_client_reachable], of 45001]
  have "Closed 0 4008 ''Connection timeout'' \<notin> set (besides_pings (elapse 45001 one_client))"
    using e by (simp add: besides_pings_def one_client_state welcome_c0_def)
  then have "Closed 0 4008 ''Connection timeout'' \<notin> set (outbox (elapse 45001 one_client))"
    by (simp add: besides_pings_def)
  then show ?thesis using e by (simp add: one_client_state)
qed

subsection \<open>Claim C2\<close>

text \<open>
  C2, as amended. For every transport connect whose token query parameter is present but
  fails verification, the server closes the new channel with close code 4003 and reason
  \<open>Invalid authentication token\<close>; that close is the only thing it does to any socket (no
  CONNECTION_ESTABLISHED is sent), the Broadcast Registry is unchanged and no handler is
  attached to the channel. Code 4002 is what the server uses for a missing token or an
  unparsable URL.
\<close>

theorem invalid_token_closes_4003:
  assumes "url_parses req" and "token_param req = Some t" and "t \<noteq> []" and "verify t = None"
  shows "outbox (on_connection verify req s)
           = outbox s @ [Closed (next_ws s) 4003 ''Invalid authentication token'']
       \<and> clients (on_connection verify req s) = clients s
       \<and> listening (on_connection verify req s) = listening s"
  using assms
  by (simp add: on_connection_def accept_socket_def uuidv4_def setTimer_def ws_close_def
      Let_def split: prod.splits)

theorem invalid_token_closes_4003_witness:
  "outbox (on_connection vfy req_expired (new_server (\<lambda>n. ''c0'')))
     = [Closed 0 4003 ''Invalid authentication token'']
   \<and> clients (on_connection vfy req_expired (new_server (\<lambda>n. ''c0''))) = []
   \<and> listening (on_connection vfy req_expired (new_server (\<lambda>n. ''c0''))) = {}"
  using invalid_token_closes_4003[of req_expired "''expired''" vfy "new_server (\<lambda>n. ''c0'')"]
  by (simp add: req_expired_def vfy_def new_server_def)

text \<open>C2 as stated fails: on an expired token the close code is 4003, and no close with 4002 is issued.\<close>

theorem expired_token_is_not_closed_4002:
  "outbox (on_connection vfy req_expired (new_server (\<lambda>n. ''c0'')))
     = [Closed 0 4003 ''Invalid authentication token'']
   \<and> Closed 0 4002 ''Invalid authentication token''
        \<notin> set (outbox (on_connection vfy req_expired (new_server (\<lambda>n. ''c0''))))"
  by (simp add: on_connection_def vfy_def req_expired_def new_server_def accept_socket_def
      uuidv4_def setTimer_def ws_close_def Let_def split: prod.splits)

subsection \<open>Claim C3\<close>

text \<open>
  \<open>sendToUser\<close> compares the registry entry itself with the user id, so for a user id
  that is a string it never sends anything.
\<close>

lemma sendToUser_Uid: "sendToUser (Uid u) m s = s"
proof -
  have "fold (\<lambda>c s'. if readyState s' c = OPEN \<and> strict_eq_entry (map_of (clients s') c) (Uid u)
                   then ws_send c m s' else s') cs s = s" for cs
    by (induction cs) (auto split: option.splits, (metis strict_eq_entry.simps(2,3) option.exhaust)+)
  then show ?thesis by (simp add: sendToUser_def)
qed

text \<open>
  C3 fails on the code. In \<open>one_client\<close> user \<open>u1\<close> has one registered channel, socket 0,
  and it is open; \<open>sendToUser\<close> for \<open>u1\<close> transmits nothing, while \<open>broadcast\<close> restricted
  to \<open>u1\<close>, which reads the \<open>userId\<close> of the entry, reaches the channel.
\<close>

theorem sendToUser_misses_registered_channel:
  "userId_of one_client 0 = Uid ''u1''
   \<and> readyState one_client 0 = OPEN
   \<and> 0 \<in> set (wss_clients one_client)
   \<and> outbox (sendToUser (Uid ''u1'') (JStr ''hello'') one_client) = outbox one_client
   \<and> outbox (broadcast (JStr ''hello'') [] (Some [Uid ''u1'']) one_client)
       = outbox one_client @ [Sent 0 (JStr ''hello'')]"
  by (simp add: sendToUser_Uid userId_of_def one_client_state broadcast_def ws_send_def)

section \<open>The client: proofs\<close>

subsection \<open>What logging and status updates leave alone\<close>

lemma addLog_frame [simp]:
  "socket (addLog msg ty d s) = socket s"
  "socketHandlers (addLog msg ty d s) = socketHandlers s"
  "connectionStatus (addLog msg ty d s) = connectionStatus s"
  "lastError (addLog msg ty d s) = lastError s"
  "isAuthenticated (addLog msg ty d s) = isAuthenticated s"
  "token (addLog msg ty d s) = token s"
  "reconnectAttempts (addLog msg ty d s) = reconnectAttempts s"
  "reconnectTimeout (addLog msg ty d s) = reconnectTimeout s"
  "messageQueue (addLog msg ty d s) = messageQueue s"
  "heartbeatInterval (addLog msg ty d s) = heartbeatInterval s"
  "pongTimeout (addLog msg ty d s) = pongTimeout s"
  "connectionTimeout (addLog msg ty d s) = connectionTimeout s"
  "isMounted (addLog msg ty d s) = isMounted s"
  "pendingPings (addLog msg ty d s) = pendingPings s"
  "reconnectBackoff (addLog msg ty d s) = reconnectBackoff s"
  "lastActivity (addLog msg ty d s) = lastActivity s"
  "isExplicitDisconnect (addLog msg ty d s) = isExplicitDisconnect s"
  "scheduled (addLog msg ty d s) = scheduled s"
  "wire (addLog msg ty d s) = wire s"
  "logoutCalls (addLog msg ty d s) = logoutCalls s"
  "DEBUG (addLog msg ty d s) = DEBUG s"
  "socketCreatable (addLog msg ty d s) = socketCreatable s"
  "clock (addLog msg ty d s) = clock s"
  "uuid_source (addLog msg ty d s) = uuid_source s"
  "random_source (addLog msg ty d s) = random_source s"
  "random_next (addLog msg ty d s) = random_next s"
  by (simp_all add: addLog_def client_uuidv4_def Let_def split: prod.splits option.splits)

lemma debugLog_frame [simp]:
  "socket (debugLog lvl msg s) = socket s"
  "socketHandlers (debugLog lvl msg s) = socketHandlers s"
  "connectionStatus (debugLog lvl msg s) = connectionStatus s"
  "lastError (debugLog lvl msg s) = lastError s"
  "isAuthenticated (debugLog lvl msg s) = isAuthenticated s"
  "token (debugLog lvl msg s) = token s"
  "reconnectAttempts (debugLog lvl msg s) = reconnectAttempts s"
  "reconnectTimeout (debugLog lvl msg s) = reconnectTimeout s"
  "messageQueue (debugLog lvl msg s) = messageQueue s"
  "heartbeatInterval (debugLog lvl msg s) = heartbeatInterval s"
  "pongTimeout (debugLog lvl msg s) = pongTimeout s"
  "connectionTimeout (debugLog lvl msg s) = connectionTimeout s"
  "isMounted (debugLog lvl msg s) = isMounted s"
  "pendingPings (debugLog lvl msg s) = pendingPings s"
  "reconnectBackoff (debugLog lvl msg s) = reconnectBackoff s"
  "lastActivity (debugLog lvl msg s) = lastActivity s"
  "isExplicitDisconnect (debugLog lvl msg s) = isExplicitDisconnect s"
  "scheduled (debugLog lvl msg s) = scheduled s"
  "wire (debugLog lvl msg s) = wire s"
  "logoutCalls (debugLog lvl msg s) = logoutCalls s"
  "DEBUG (debugLog lvl msg s) = DEBUG s"
  "socketCreatable (debugLog lvl msg s) = socketCreatable s"
  "clock (debugLog lvl msg s) = clock s"
  "uuid_source (debugLog lvl msg s) = uuid_source s"
  "random_source (debugLog lvl msg s) = random_source s"
  "random_next (debugLog lvl msg s) = random_next s"
  by (simp_all add: debugLog_def Let_def split: prod.splits option.splits)

lemma updateStatus_frame [simp]:
  "socket (updateStatus st err s) = socket s"
  "socketHandlers (updateStatus st err s) = socketHandlers s"
  "isAuthenticated (updateStatus st err s) = isAuthenticated s"
  "token (updateStatus st err s) = token s"
  "reconnectAttempts (updateStatus st err s) = reconnectAttempts s"
  "reconnectTimeout (updateStatus st err s) = reconnectTimeout s"
  "messageQueue (updateStatus st err s) = messageQueue s"
  "heartbeatInterval (updateStatus st err s) = heartbeatInterval s"
  "pongTimeout (updateStatus st err s) = pongTimeout s"
  "connectionTimeout (updateStatus st err s) = connectionTimeout s"
  "isMounted (updateStatus st err s) = isMounted s"
  "pendingPings (updateStatus st err s) = pendingPings s"
  "reconnectBackoff (updateStatus st err s) = reconnectBackoff s"
  "lastActivity (updateStatus st err s) = lastActivity s"
  "isExplicitDisconnect (updateStatus st err s) = isExplicitDisconnect s"
  "scheduled (updateStatus st err s) = scheduled s"
  "wire (updateStatus st err s) = wire s"
  "logoutCalls (updateStatus st err s) = logoutCalls s"
  "DEBUG (updateStatus st err s) = DEBUG s"
  "socketCreatable (updateStatus st err s) = socketCreatable s"
  "clock (updateStatus st err s) = clock s"
  "uuid_source (updateStatus st err s) = uuid_source s"
  "random_source (updateStatus st err s) = random_source s"
  "random_next (updateStatus st err s) = random_next s"
  by (simp_all add: updateStatus_def Let_def split: prod.splits option.splits)

lemma updateStatus_status [simp]:
  "isMounted s \<Longrightarrow> connectionStatus (updateStatus st err s) = st"
  by (simp add: updateStatus_def Let_def split: option.splits)

lemma updateStatus_unmounted [simp]: "\<not> isMounted s \<Longrightarrow> updateStatus st err s = s"
  by (simp add: updateStatus_def)

subsection \<open>Claim C6: the queue is bounded while disconnected\<close>









subsection \<open>The concrete clients\<close>




subsection \<open>Claim C10: every outgoing message gets a new id\<close>






subsection \<open>Claim C7: \<open>disconnect\<close>\<close>


lemma cleanupSocket_no_pings:
  assumes "pendingPings s = []"
  shows "fst (cleanupSocket s) = None"
    and "heartbeatInterval (snd (cleanupSocket s)) = None"
    and "pongTimeout (snd (cleanupSocket s)) = None"
    and "connectionTimeout (snd (cleanupSocket s)) = None"
    and "isMounted (snd (cleanupSocket s)) = isMounted s"
    and "socket s \<noteq> Some OPEN \<Longrightarrow> wire (snd (cleanupSocket s)) = wire s"
  using assms by (simp_all add: cleanupSocket_def socket_close_def Let_def split: option.splits)










subsection \<open>Claim C9: the reconnect delay\<close>











subsection \<open>Claim C8: at most one pending probe\<close>

lemma hb_view_update [simp]:
  "hb_view (s\<lparr>socket := x0\<rparr>) = hb_view s"
  "hb_view (s\<lparr>socketHandlers := x1\<rparr>) = hb_view s"
  "hb_view (s\<lparr>connectionStatus := x2\<rparr>) = hb_view s"
  "hb_view (s\<lparr>lastError := x3\<rparr>) = hb_view s"
  "hb_view (s\<lparr>logs := x4\<rparr>) = hb_view s"
  "hb_view (s\<lparr>isAuthenticated := x5\<rparr>) = hb_view s"
  "hb_view (s\<lparr>token := x6\<rparr>) = hb_view s"
  "hb_view (s\<lparr>reconnectAttempts := x7\<rparr>) = hb_view s"
  "hb_view (s\<lparr>reconnectTimeout := x8\<rparr>) = hb_view s"
  "hb_view (s\<lparr>messageQueue := x9\<rparr>) = hb_view s"
  "hb_view (s\<lparr>pongTimeout := x10\<rparr>) = hb_view s"
  "hb_view (s\<lparr>connectionTimeout := x11\<rparr>) = hb_view s"
  "hb_view (s\<lparr>isMounted := x12\<rparr>) = hb_view s"
  "hb_view (s\<lparr>reconnectBackoff := x13\<rparr>) = hb_view s"
  "hb_view (s\<lparr>lastActivity := x14\<rparr>) = hb_view s"
  "hb_view (s\<lparr>isExplicitDisconnect := x15\<rparr>) = hb_view s"
  "hb_view (s\<lparr>scheduled := x16\<rparr>) = hb_view s"
  "hb_view (s\<lparr>toasts := x17\<rparr>) = hb_view s"
  "hb_view (s\<lparr>wire := x18\<rparr>) = hb_view s"
  "hb_view (s\<lparr>logoutCalls := x19\<rparr>) = hb_view s"
  "hb_view (s\<lparr>DEBUG := x20\<rparr>) = hb_view s"
  "hb_view (s\<lparr>socketCreatable := x21\<rparr>) = hb_view s"
  "hb_view (s\<lparr>uuid_next := x22\<rparr>) = hb_view s"
  "hb_view (s\<lparr>random_next := x23\<rparr>) = hb_view s"
  by (simp_all add: hb_view_def)

lemma probes_ok_view: "hb_view s' = hb_view s \<Longrightarrow> probes_ok s' = probes_ok s"
  by (simp add: hb_view_def probes_ok_def)




lemma hb_addLog [simp]: "hb_view (addLog m t d s) = hb_view s"
  by (simp add: hb_view_def)
lemma hb_debugLog [simp]: "hb_view (debugLog l m s) = hb_view s"
  by (simp add: hb_view_def)
lemma hb_updateStatus [simp]: "hb_view (updateStatus st e s) = hb_view s"
  by (simp add: hb_view_def)

lemma hb_handleReconnect [simp]: "hb_view (handleReconnect s) = hb_view s"
  by (simp add: hb_view_def handleReconnect_def math_random_def Let_def split: prod.splits)

lemma hb_sendMessage: "sendMessage m q s = Inr (b, s') \<Longrightarrow> hb_view s' = hb_view s"
  by (auto simp: hb_view_def sendMessage_def client_uuidv4_def socket_send_def Let_def
      split: if_splits prod.splits sum.splits option.splits ready_state.splits)

lemma hb_drain_batch [simp]: "hb_view (drain_batch es s) = hb_view s"
proof (induction es arbitrary: s)
  case Nil
  then show ?case by simp
next
  case (Cons e es)
  show ?case
  proof (cases "sendMessage (q_message e) False s")
    case (Inl err)
    then show ?thesis using Cons.IH by (simp add: Let_def hb_view_def)
  next
    case (Inr r)
    obtain b s1 where r: "r = (b, s1)" by (cases r)
    show ?thesis using Inr r Cons.IH[of s1] hb_sendMessage[of "q_message e" False s b s1] by simp
  qed
qed

lemma hb_processMessageQueue [simp]: "hb_view (processMessageQueue_readme s) = hb_view s"
  by (simp add: processMessageQueue_readme_def Let_def)

lemma hb_socket_close [simp]: "hb_view (socket_close c r s) = hb_view s"
  by (simp add: hb_view_def socket_close_def)



lemma probes_ok_simps [simp]:
  "probes_ok (addLog m t d s) = probes_ok s"
  "probes_ok (debugLog l m s) = probes_ok s"
  "probes_ok (updateStatus st e s) = probes_ok s"
  "probes_ok (handleReconnect s) = probes_ok s"
  "probes_ok (processMessageQueue_readme s) = probes_ok s"
  "probes_ok (socket_close c r s) = probes_ok s"
  "probes_ok (s\<lparr>isExplicitDisconnect := x1\<rparr>) = probes_ok s"
  "probes_ok (s\<lparr>socket := x2\<rparr>) = probes_ok s"
  "probes_ok (s\<lparr>socketHandlers := x3\<rparr>) = probes_ok s"
  "probes_ok (s\<lparr>connectionTimeout := x4\<rparr>) = probes_ok s"
  "probes_ok (s\<lparr>reconnectTimeout := x5\<rparr>) = probes_ok s"
  "probes_ok (s\<lparr>reconnectAttempts := x6\<rparr>) = probes_ok s"
  "probes_ok (s\<lparr>lastActivity := x7\<rparr>) = probes_ok s"
  "probes_ok (s\<lparr>isMounted := x8\<rparr>) = probes_ok s"
  "probes_ok (s\<lparr>isAuthenticated := x9\<rparr>) = probes_ok s"
  "probes_ok (s\<lparr>token := x10\<rparr>) = probes_ok s"
  "probes_ok (s\<lparr>scheduled := x11\<rparr>) = probes_ok s"
  by (rule probes_ok_view, simp)+































section \<open>WebSocketContext.jsx: proofs\<close>

subsection \<open>Claim C5: the drain\<close>



lemma give_ups_update [simp]:
  "give_ups (s\<lparr>wire := w\<rparr>) = give_ups s"
  "give_ups (s\<lparr>messageQueue := q\<rparr>) = give_ups s"
  "give_ups (s\<lparr>scheduled := sc\<rparr>) = give_ups s"
  "give_ups (s\<lparr>uuid_next := n\<rparr>) = give_ups s"
  by (simp_all add: give_ups_def)

lemma not_give_up [simp]:
  "send_error_text err \<noteq> give_up_text"
  "send_exception_text err \<noteq> give_up_text"
  by (simp_all add: give_up_text_def send_error_text_def send_exception_text_def)






lemma processMessageQueue_closed:
  "socket s \<noteq> Some OPEN \<Longrightarrow> processMessageQueue out s = (0, s)"
  by (simp add: processMessageQueue_def)





subsection \<open>Claim C4: the transition to \<open>CONNECTED\<close>\<close>
















end
